theory Spec2Isabelle
  imports Main "HOL-Library.Word" "HOL-Library.Multiset"
begin

section \<open>Drawing elements\<close>

text \<open>
  The program \<^verbatim>\<open>ptr-notes.cpp\<close> has an abstract class \<^verbatim>\<open>DrawingElement\<close> with the three
  concrete classes \<^verbatim>\<open>Point\<close>, \<^verbatim>\<open>Line\<close> and \<^verbatim>\<open>Rectangle\<close>. Their fields are C++ \<^verbatim>\<open>int\<close>s,
  taken here as 32-bit two's complement words; the constructors store their arguments
  in the order given and nothing ever changes them.
\<close>

type_synonym cint = "32 word"

datatype DrawingElement =
    Point cint cint                 \<comment> \<open>\<^verbatim>\<open>_x, _y\<close>\<close>
  | Line cint cint cint cint        \<comment> \<open>\<^verbatim>\<open>_x1, _y1, _x2, _y2\<close>\<close>
  | Rectangle cint cint cint cint   \<comment> \<open>\<^verbatim>\<open>_x, _y, _w, _h\<close>\<close>

subsection \<open>Decimal output\<close>

text \<open>
  \<^verbatim>\<open>std::cout << n\<close> for an \<^verbatim>\<open>int\<close> or a \<^verbatim>\<open>size_t\<close> writes the decimal digits of the
  number, with a leading minus sign for a negative one. This is the standard library's
  default formatting.
\<close>

definition digit :: "nat \<Rightarrow> char" where
  "digit n = ''0123456789'' ! n"

fun show_nat :: "nat \<Rightarrow> string" where
  "show_nat n = (if n < 10 then [digit n] else show_nat (n div 10) @ [digit (n mod 10)])"

declare show_nat.simps [simp del]

definition show_int :: "int \<Rightarrow> string" where
  "show_int i = (if i < 0 then CHR ''-'' # show_nat (nat (- i)) else show_nat (nat i))"

definition show_cint :: "cint \<Rightarrow> string" where
  "show_cint x = show_int (sint x)"

subsection \<open>The render methods\<close>

text \<open>
  Each \<^verbatim>\<open>render()\<close> writes one line to \<^verbatim>\<open>std::cout\<close> and ends it with \<^verbatim>\<open>std::endl\<close>.
  \<open>render\<close> gives the text of that line; the virtual call is the case distinction on
  the class of the object.
\<close>

fun render :: "DrawingElement \<Rightarrow> string" where
  "render (Point x y) =
     ''Rendering a point ('' @ show_cint x @ '', '' @ show_cint y @ '')''"
| "render (Line x1 y1 x2 y2) =
     ''Rendering a line from ('' @ show_cint x1 @ '', '' @ show_cint y1
       @ '') to ('' @ show_cint x2 @ '', '' @ show_cint y2 @ '')''"
| "render (Rectangle x y w h) =
     ''Rendering a rectangle of dimension '' @ show_cint w @ ''x'' @ show_cint h
       @ '', from ('' @ show_cint x @ '', '' @ show_cint y @ '')''"

section \<open>Memory, pointers and the Drawing\<close>

text \<open>
  Objects live at addresses. An object has automatic storage (a local variable, such as
  the three shapes of \<^verbatim>\<open>main\<close>) or dynamic storage (made by \<^verbatim>\<open>new\<close>). A pointer is an
  address or \<^verbatim>\<open>nullptr\<close> (\<open>None\<close>); a \<^verbatim>\<open>std::unique_ptr\<close> holds such a pointer and is the
  one that deletes the object. The state has the two vectors of the class \<^verbatim>\<open>Drawing\<close>
  that hold pointers, the memory, and the lines written to \<^verbatim>\<open>std::cout\<close> so far.
  The third member \<^verbatim>\<open>_drawing\<close>, a vector of \<^verbatim>\<open>DrawingElement\<close> values, can never
  receive an element (the class is abstract) and is left out.
\<close>

datatype storage = Automatic | Dynamic

type_synonym object = "storage \<times> DrawingElement"
type_synonym addr = nat
type_synonym ptr = "addr option"

record state =
  drawing_ptrs :: "ptr list"      \<comment> \<open>\<^verbatim>\<open>std::vector<DrawingElement*> _drawing_ptrs\<close>\<close>
  drawing_u_ptrs :: "ptr list"    \<comment> \<open>\<^verbatim>\<open>std::vector<std::unique_ptr<DrawingElement>> _drawing_u_ptrs\<close>\<close>
  heap :: "addr \<Rightarrow> object option"  \<comment> \<open>the objects alive\<close>
  next_addr :: addr               \<comment> \<open>where \<^verbatim>\<open>new\<close> places the next object\<close>
  cout :: "string list"           \<comment> \<open>the lines written, oldest first\<close>

text \<open>
  What C++ leaves undefined is a fault of the model, so that no theorem can rely on it:
  a call through a null pointer, a call through a pointer to an object that is gone, and
  a \<^verbatim>\<open>delete\<close> of anything but a live object made by \<^verbatim>\<open>new\<close>. A fault is not a C++
  exception: the program has no defined behaviour from there on.
\<close>

datatype fault = NullDereference | DanglingDereference | InvalidDelete

text \<open>The state in which \<^verbatim>\<open>main\<close> constructs its \<^verbatim>\<open>Drawing\<close>: both vectors empty.\<close>

definition Drawing_init :: state where
  "Drawing_init =
     \<lparr>drawing_ptrs = [], drawing_u_ptrs = [], heap = (\<lambda>a. None), next_addr = 0, cout = []\<rparr>"

text \<open>\<^verbatim>\<open>std::cout << ... << std::endl\<close>: one more line of output.\<close>

definition println :: "string \<Rightarrow> state \<Rightarrow> state" where
  "println line s = s\<lparr>cout := cout s @ [line]\<rparr>"

text \<open>
  \<^verbatim>\<open>new T{...}\<close>: a fresh object with dynamic storage, and its address. Addresses are
  handed out in increasing order and none is used again; allocation does not fail.
\<close>

definition op_new :: "DrawingElement \<Rightarrow> state \<Rightarrow> addr \<times> state" where
  "op_new e s =
     (next_addr s,
      s\<lparr>heap := (heap s)(next_addr s \<mapsto> (Dynamic, e)), next_addr := Suc (next_addr s)\<rparr>)"

text \<open>
  \<^verbatim>\<open>delete p\<close>: nothing for a null pointer; otherwise the object must be alive and come
  from \<^verbatim>\<open>new\<close>, and it is gone afterwards. The destructor of \<^verbatim>\<open>DrawingElement\<close> is not
  virtual and all destructors are empty: a \<^verbatim>\<open>delete\<close> through the pointer to the base
  class is taken to release the whole object and to do nothing else.
\<close>

definition op_delete :: "ptr \<Rightarrow> state \<Rightarrow> fault + state" where
  "op_delete p s =
     (case p of
        None \<Rightarrow> Inr s
      | Some a \<Rightarrow>
          (case heap s a of
             None \<Rightarrow> Inl InvalidDelete
           | Some obj \<Rightarrow>
               if fst obj = Dynamic then Inr (s\<lparr>heap := (heap s)(a := None)\<rparr>)
               else Inl InvalidDelete))"

text \<open>\<^verbatim>\<open>p->render()\<close>: the object \<open>p\<close> points to writes its line.\<close>

definition deref :: "ptr \<Rightarrow> state \<Rightarrow> fault + DrawingElement" where
  "deref p s =
     (case p of
        None \<Rightarrow> Inl NullDereference
      | Some a \<Rightarrow>
          (case heap s a of
             None \<Rightarrow> Inl DanglingDereference
           | Some obj \<Rightarrow> Inr (snd obj)))"

definition call_render :: "ptr \<Rightarrow> state \<Rightarrow> fault + state" where
  "call_render p s =
     (case deref p s of
        Inl f \<Rightarrow> Inl f
      | Inr e \<Rightarrow> Inr (println (render e) s))"

subsection \<open>Adding elements\<close>

text \<open>\<^verbatim>\<open>add_element_ptr\<close>: \<^verbatim>\<open>_drawing_ptrs.push_back(element_ptr)\<close>.\<close>

definition add_element_ptr :: "ptr \<Rightarrow> state \<Rightarrow> state" where
  "add_element_ptr element_ptr s = s\<lparr>drawing_ptrs := drawing_ptrs s @ [element_ptr]\<rparr>"

text \<open>
  Moving a \<^verbatim>\<open>std::unique_ptr\<close>: the new handle takes the pointer and the handle moved
  from holds \<^verbatim>\<open>nullptr\<close>. The result is the pair (new handle, handle moved from).
\<close>

definition unique_ptr_move :: "ptr \<Rightarrow> ptr \<times> ptr" where
  "unique_ptr_move p = (p, None)"

text \<open>
  \<^verbatim>\<open>_drawing_u_ptrs.emplace_back(h)\<close> for an rvalue handle \<open>h\<close>: the new last slot of the
  vector is move-constructed from \<open>h\<close>. The result is the new state and \<open>h\<close> afterwards.
\<close>

definition emplace_back_u_ptr :: "ptr \<Rightarrow> state \<Rightarrow> state \<times> ptr" where
  "emplace_back_u_ptr h s =
     (let (slot, moved_from) = unique_ptr_move h
      in (s\<lparr>drawing_u_ptrs := drawing_u_ptrs s @ [slot]\<rparr>, moved_from))"

text \<open>
  \<^verbatim>\<open>add_element_u_ptr\<close>: \<^verbatim>\<open>_drawing_u_ptrs.emplace_back(std::move(element_u_ptr))\<close>. The
  result is the new state and the parameter \<^verbatim>\<open>element_u_ptr\<close> as the body leaves it.
  The parameter is destroyed when the function returns; it is null by then, and the
  destructor of a null \<^verbatim>\<open>unique_ptr\<close> deletes nothing.
\<close>

definition add_element_u_ptr :: "ptr \<Rightarrow> state \<Rightarrow> state \<times> ptr" where
  "add_element_u_ptr element_u_ptr s = emplace_back_u_ptr element_u_ptr s"

text \<open>
  A call \<^verbatim>\<open>drawing.add_element_u_ptr(std::move(e))\<close> from a caller that holds the handle
  \<open>e\<close>: the parameter is taken by value and \<^verbatim>\<open>unique_ptr\<close> cannot be copied, so the
  parameter is move-constructed from \<open>e\<close>. The result is the new state and the caller's
  \<open>e\<close> after the call.
\<close>

definition call_add_element_u_ptr :: "ptr \<Rightarrow> state \<Rightarrow> state \<times> ptr" where
  "call_add_element_u_ptr e s =
     (let (element_u_ptr, e') = unique_ptr_move e
      in (fst (add_element_u_ptr element_u_ptr s), e'))"

subsection \<open>Rendering\<close>

text \<open>
  \<^verbatim>\<open>render_ptrs\<close>: a blank line; for an empty vector one message and return; otherwise
  the count and then, for each pointer in order, the null notice or the object's line.
\<close>

fun render_ptrs_loop :: "ptr list \<Rightarrow> state \<Rightarrow> fault + state" where
  "render_ptrs_loop [] s = Inr s"
| "render_ptrs_loop (element_ptr # rest) s =
     (if element_ptr = None then render_ptrs_loop rest (println ''  ** Null pointer'' s)
      else (case call_render element_ptr s of
              Inl f \<Rightarrow> Inl f
            | Inr s' \<Rightarrow> render_ptrs_loop rest s'))"

definition render_ptrs :: "state \<Rightarrow> fault + state" where
  "render_ptrs s =
     (let s1 = println [] s
      in if drawing_ptrs s1 = [] then Inr (println ''Collection of pointers is empty'' s1)
         else render_ptrs_loop (drawing_ptrs s1)
                (println (''Rendering '' @ show_nat (length (drawing_ptrs s1))
                            @ '' elements from pointers'') s1))"

text \<open>
  \<^verbatim>\<open>render_u_ptrs\<close>: a blank line, the count, and then \<^verbatim>\<open>elementPtr->render()\<close> for each
  handle in order. There is no test for an empty vector and none for a null handle.
\<close>

fun render_u_ptrs_loop :: "ptr list \<Rightarrow> state \<Rightarrow> fault + state" where
  "render_u_ptrs_loop [] s = Inr s"
| "render_u_ptrs_loop (elementPtr # rest) s =
     (case call_render elementPtr s of
        Inl f \<Rightarrow> Inl f
      | Inr s' \<Rightarrow> render_u_ptrs_loop rest s')"

definition render_u_ptrs :: "state \<Rightarrow> fault + state" where
  "render_u_ptrs s =
     (let s1 = println [] s
      in render_u_ptrs_loop (drawing_u_ptrs s1)
           (println (''Rendering '' @ show_nat (length (drawing_u_ptrs s1))
                       @ '' elements from unique pointers'') s1))"

subsection \<open>Factory methods\<close>

text \<open>Each returns a \<^verbatim>\<open>unique_ptr\<close> that holds a freshly made object.\<close>

definition getPointPtr :: "cint \<Rightarrow> cint \<Rightarrow> state \<Rightarrow> ptr \<times> state" where
  "getPointPtr x y s = (let (a, s') = op_new (Point x y) s in (Some a, s'))"

definition getLinePtr :: "cint \<Rightarrow> cint \<Rightarrow> cint \<Rightarrow> cint \<Rightarrow> state \<Rightarrow> ptr \<times> state" where
  "getLinePtr x1 y1 x2 y2 s = (let (a, s') = op_new (Line x1 y1 x2 y2) s in (Some a, s'))"

definition getRectanglePtr :: "cint \<Rightarrow> cint \<Rightarrow> cint \<Rightarrow> cint \<Rightarrow> state \<Rightarrow> ptr \<times> state" where
  "getRectanglePtr x y w h s = (let (a, s') = op_new (Rectangle x y w h) s in (Some a, s'))"

subsection \<open>Drawing and clearing\<close>

text \<open>
  \<^verbatim>\<open>draw_ptrs\<close>: \<^verbatim>\<open>_drawing_ptrs.clear()\<close>, which drops the pointers and deletes nothing,
  then three objects made by \<^verbatim>\<open>new\<close> are pushed. The three local shapes of the function
  are never referred to (the lines that push their addresses are commented out) and are
  gone when it returns.
\<close>

definition draw_ptrs :: "state \<Rightarrow> state" where
  "draw_ptrs s =
     (let s0 = s\<lparr>drawing_ptrs := []\<rparr>;
          (a1, s1) = op_new (Point 45 55) s0;
          s2 = s1\<lparr>drawing_ptrs := drawing_ptrs s1 @ [Some a1]\<rparr>;
          (a2, s3) = op_new (Line 88 98 456 987) s2;
          s4 = s3\<lparr>drawing_ptrs := drawing_ptrs s3 @ [Some a2]\<rparr>;
          (a3, s5) = op_new (Rectangle 879 654 123 321) s4
      in s5\<lparr>drawing_ptrs := drawing_ptrs s5 @ [Some a3]\<rparr>)"

text \<open>
  \<^verbatim>\<open>clear_drawing_ptrs\<close>: a blank line, the message, \<^verbatim>\<open>delete ptr\<close> for each pointer in
  order, and then \<^verbatim>\<open>_drawing_ptrs.clear()\<close>.
\<close>

fun delete_loop :: "ptr list \<Rightarrow> state \<Rightarrow> fault + state" where
  "delete_loop [] s = Inr s"
| "delete_loop (ptr # rest) s =
     (case op_delete ptr s of
        Inl f \<Rightarrow> Inl f
      | Inr s' \<Rightarrow> delete_loop rest s')"

definition clear_drawing_ptrs :: "state \<Rightarrow> fault + state" where
  "clear_drawing_ptrs s =
     (case delete_loop (drawing_ptrs s) (println ''* Deleting pointers'' (println [] s)) of
        Inl f \<Rightarrow> Inl f
      | Inr s' \<Rightarrow> Inr (s'\<lparr>drawing_ptrs := []\<rparr>))"

text \<open>
  \<^verbatim>\<open>_drawing_u_ptrs.clear()\<close> destroys the handles, first to last; the destructor of a
  \<^verbatim>\<open>unique_ptr\<close> deletes the object it holds, if any. The vector is empty afterwards.
\<close>

definition unique_ptr_dtor :: "ptr \<Rightarrow> state \<Rightarrow> fault + state" where
  "unique_ptr_dtor p s = op_delete p s"

fun destroy_u_ptrs :: "ptr list \<Rightarrow> state \<Rightarrow> fault + state" where
  "destroy_u_ptrs [] s = Inr s"
| "destroy_u_ptrs (p # rest) s =
     (case unique_ptr_dtor p s of
        Inl f \<Rightarrow> Inl f
      | Inr s' \<Rightarrow> destroy_u_ptrs rest s')"

definition clear_u_ptrs :: "state \<Rightarrow> fault + state" where
  "clear_u_ptrs s =
     (case destroy_u_ptrs (drawing_u_ptrs s) s of
        Inl f \<Rightarrow> Inl f
      | Inr s' \<Rightarrow> Inr (s'\<lparr>drawing_u_ptrs := []\<rparr>))"

text \<open>
  \<^verbatim>\<open>draw_u_ptrs\<close>: clear the vector, then four \<^verbatim>\<open>emplace_back\<close>s of temporaries: a
  \<^verbatim>\<open>unique_ptr<Point>\<close> made in place and one from each factory method. Each temporary
  is null once it has been moved from, and its destructor deletes nothing.
\<close>

definition draw_u_ptrs :: "state \<Rightarrow> fault + state" where
  "draw_u_ptrs s =
     (case clear_u_ptrs s of
        Inl f \<Rightarrow> Inl f
      | Inr s0 \<Rightarrow>
          (let (a1, s1) = op_new (Point 10 15) s0;
               s2 = fst (emplace_back_u_ptr (Some a1) s1);
               (p2, s3) = getPointPtr 35 22 s2;
               s4 = fst (emplace_back_u_ptr p2 s3);
               (p3, s5) = getLinePtr 55 122 234 556 s4;
               s6 = fst (emplace_back_u_ptr p3 s5);
               (p4, s7) = getRectanglePtr 3 194 34 200 s6
           in Inr (fst (emplace_back_u_ptr p4 s7))))"

section \<open>Vocabulary of the properties\<close>

text \<open>The addresses held by a list of handles or pointers, nulls left out.\<close>

fun owners :: "ptr list \<Rightarrow> addr list" where
  "owners [] = []"
| "owners (None # ps) = owners ps"
| "owners (Some a # ps) = a # owners ps"

text \<open>
  The objects that \<^verbatim>\<open>delete\<close> accepts, and the lists of pointers whose referents can be
  deleted one after the other: no address twice, each one a live object made by
  \<^verbatim>\<open>new\<close>. For the vector of \<^verbatim>\<open>unique_ptr\<close>s this is what the type stands for: each
  handle is null or the only owner of a live object.
\<close>

definition owns_dynamic :: "state \<Rightarrow> addr \<Rightarrow> bool" where
  "owns_dynamic s a = (case heap s a of None \<Rightarrow> False | Some obj \<Rightarrow> fst obj = Dynamic)"

definition deletable :: "state \<Rightarrow> ptr list \<Rightarrow> bool" where
  "deletable s ps = (distinct (owners ps) \<and> list_all (owns_dynamic s) (owners ps))"

definition owned_ok :: "state \<Rightarrow> bool" where
  "owned_ok s = deletable s (drawing_u_ptrs s)"

text \<open>
  The line that \<^verbatim>\<open>render_ptrs\<close> writes for one slot of \<^verbatim>\<open>_drawing_ptrs\<close>: the notice for a
  null pointer, the object's line for a pointer to a live object. A dangling pointer has
  no line.
\<close>

definition slot_output :: "state \<Rightarrow> ptr \<Rightarrow> string \<Rightarrow> bool" where
  "slot_output s p l =
     (case p of
        None \<Rightarrow> l = ''  ** Null pointer''
      | Some a \<Rightarrow> (case heap s a of None \<Rightarrow> False | Some obj \<Rightarrow> l = render (snd obj)))"

text \<open>A sequence of calls of \<^verbatim>\<open>add_element_u_ptr\<close>, one for each handle of the list.\<close>

definition add_all_u_ptrs :: "ptr list \<Rightarrow> state \<Rightarrow> state" where
  "add_all_u_ptrs hs s = fold (\<lambda>h s. fst (add_element_u_ptr h s)) hs s"

section \<open>Output and frame of the basic steps\<close>

lemma println_fields [simp]:
  "drawing_ptrs (println l s) = drawing_ptrs s"
  "drawing_u_ptrs (println l s) = drawing_u_ptrs s"
  "heap (println l s) = heap s"
  "next_addr (println l s) = next_addr s"
  "cout (println l s) = cout s @ [l]"
  by (simp_all add: println_def)

lemma deref_heap_cong: "heap s = heap t \<Longrightarrow> deref p s = deref p t"
  by (simp add: deref_def split: option.split)

lemma deref_println [simp]: "deref p (println l s) = deref p s"
  by (rule deref_heap_cong) simp

lemma deref_u_ptrs_update [simp]: "deref p (s\<lparr>drawing_u_ptrs := hs\<rparr>) = deref p s"
  by (rule deref_heap_cong) simp

lemma deref_cout [simp]: "deref p (s\<lparr>cout := c\<rparr>) = deref p s"
  by (rule deref_heap_cong) simp

lemma slot_output_println [simp]: "slot_output (println l s) = slot_output s"
  by (simp add: slot_output_def fun_eq_iff split: option.split)

lemma slot_output_cout [simp]: "slot_output (s\<lparr>cout := c\<rparr>) = slot_output s"
  by (simp add: slot_output_def fun_eq_iff split: option.split)

lemma show_nat_digit: "n < 10 \<Longrightarrow> show_nat n = [digit n]"
  by (simp add: show_nat.simps)

lemma owners_append: "owners (xs @ ys) = owners xs @ owners ys"
  by (induction xs rule: owners.induct) simp_all

lemma add_all_u_ptrs_eq: "add_all_u_ptrs hs s = s\<lparr>drawing_u_ptrs := drawing_u_ptrs s @ hs\<rparr>"
  unfolding add_all_u_ptrs_def
  by (induction hs arbitrary: s)
     (simp_all add: add_element_u_ptr_def emplace_back_u_ptr_def unique_ptr_move_def)

subsection \<open>The loops of the render methods\<close>

lemma render_u_ptrs_loop_lines:
  "list_all2 (\<lambda>h e. deref h s = Inr e) hs es \<Longrightarrow>
   render_u_ptrs_loop hs s = Inr (s\<lparr>cout := cout s @ map render es\<rparr>)"
proof (induction hs arbitrary: s es)
  case Nil
  then show ?case by simp
next
  case (Cons h hs)
  then obtain e es' where es: "es = e # es'" and h: "deref h s = Inr e"
    and rest: "list_all2 (\<lambda>h e. deref h s = Inr e) hs es'"
    by (auto simp: list_all2_Cons1)
  from rest have "list_all2 (\<lambda>h e. deref h (println (render e0) s) = Inr e) hs es'" for e0
    by simp
  from Cons.IH [OF this] h show ?case
    by (simp add: es call_render_def println_def)
qed

lemma render_ptrs_loop_lines:
  "list_all2 (slot_output s) ps ls \<Longrightarrow>
   render_ptrs_loop ps s = Inr (s\<lparr>cout := cout s @ ls\<rparr>)"
proof (induction ps arbitrary: s ls)
  case Nil
  then show ?case by simp
next
  case (Cons p ps)
  then obtain l ls' where ls: "ls = l # ls'" and p: "slot_output s p l"
    and rest: "list_all2 (slot_output s) ps ls'"
    by (auto simp: list_all2_Cons1)
  from rest have "list_all2 (slot_output (println l0 s)) ps ls'" for l0
    by simp
  from Cons.IH [OF this] p show ?case
    by (auto simp: ls call_render_def deref_def slot_output_def println_def split: option.splits)
qed

lemma render_u_ptrs_lines:
  assumes "list_all2 (\<lambda>h e. deref h s = Inr e) (drawing_u_ptrs s) es"
  shows "render_u_ptrs s =
           Inr (s\<lparr>cout := cout s @
                  [[], ''Rendering '' @ show_nat (length (drawing_u_ptrs s))
                         @ '' elements from unique pointers'']
                  @ map render es\<rparr>)"
proof -
  let ?h = "''Rendering '' @ show_nat (length (drawing_u_ptrs s))
              @ '' elements from unique pointers''"
  have "list_all2 (\<lambda>h e. deref h (println ?h (println [] s)) = Inr e) (drawing_u_ptrs s) es"
    using assms by simp
  from render_u_ptrs_loop_lines [OF this] show ?thesis
    by (simp add: render_u_ptrs_def Let_def println_def)
qed

lemma render_ptrs_lines:
  assumes "drawing_ptrs s \<noteq> []" and "list_all2 (slot_output s) (drawing_ptrs s) ls"
  shows "render_ptrs s =
           Inr (s\<lparr>cout := cout s @
                  [[], ''Rendering '' @ show_nat (length (drawing_ptrs s))
                         @ '' elements from pointers'']
                  @ ls\<rparr>)"
proof -
  let ?h = "''Rendering '' @ show_nat (length (drawing_ptrs s)) @ '' elements from pointers''"
  have "list_all2 (slot_output (println ?h (println [] s))) (drawing_ptrs s) ls"
    using assms(2) by simp
  from render_ptrs_loop_lines [OF this] show ?thesis
    using assms(1) by (simp add: render_ptrs_def Let_def println_def)
qed

text \<open>A loop that returns has found a line for every slot.\<close>

lemma render_ptrs_loop_slots:
  "render_ptrs_loop ps s = Inr s' \<Longrightarrow> \<exists>ls. list_all2 (slot_output s) ps ls"
proof (induction ps arbitrary: s)
  case Nil
  then show ?case by simp
next
  case (Cons p ps)
  show ?case
  proof (cases p)
    case None
    with Cons.prems have "render_ptrs_loop ps (println ''  ** Null pointer'' s) = Inr s'"
      by simp
    from Cons.IH [OF this] obtain ls where "list_all2 (slot_output s) ps ls"
      by auto
    then have "list_all2 (slot_output s) (p # ps) (''  ** Null pointer'' # ls)"
      by (simp add: None slot_output_def)
    then show ?thesis ..
  next
    case (Some a)
    with Cons.prems obtain obj where obj: "heap s a = Some obj"
      and rest: "render_ptrs_loop ps (println (render (snd obj)) s) = Inr s'"
      by (auto simp: call_render_def deref_def split: option.splits sum.splits)
    from Cons.IH [OF rest] obtain ls where "list_all2 (slot_output s) ps ls"
      by auto
    then have "list_all2 (slot_output s) (p # ps) (render (snd obj) # ls)"
      by (simp add: Some obj slot_output_def)
    then show ?thesis ..
  qed
qed

lemma render_u_ptrs_loop_elements:
  "render_u_ptrs_loop hs s = Inr s' \<Longrightarrow> \<exists>es. list_all2 (\<lambda>h e. deref h s = Inr e) hs es"
proof (induction hs arbitrary: s)
  case Nil
  then show ?case by simp
next
  case (Cons h hs)
  then obtain e where e: "deref h s = Inr e"
    and rest: "render_u_ptrs_loop hs (println (render e) s) = Inr s'"
    by (auto simp: call_render_def split: sum.splits)
  from Cons.IH [OF rest] obtain es where "list_all2 (\<lambda>h e. deref h s = Inr e) hs es"
    by auto
  with e have "list_all2 (\<lambda>h e. deref h s = Inr e) (h # hs) (e # es)"
    by simp
  then show ?case ..
qed

text \<open>A render method that returns has changed nothing but the output, and writes the
  same lines when it is called again.\<close>

lemma render_ptrs_frame:
  assumes "render_ptrs s = Inr s'"
  shows "\<exists>out. s' = s\<lparr>cout := cout s @ out\<rparr>
           \<and> render_ptrs s' = Inr (s'\<lparr>cout := cout s' @ out\<rparr>)"
proof (cases "drawing_ptrs s = []")
  case True
  let ?out = "[[], ''Collection of pointers is empty'']"
  from assms True have "s' = s\<lparr>cout := cout s @ ?out\<rparr>"
    by (simp add: render_ptrs_def Let_def println_def)
  moreover from this True have "render_ptrs s' = Inr (s'\<lparr>cout := cout s' @ ?out\<rparr>)"
    by (simp add: render_ptrs_def Let_def println_def)
  ultimately show ?thesis by blast
next
  case False
  let ?h = "''Rendering '' @ show_nat (length (drawing_ptrs s)) @ '' elements from pointers''"
  from assms False
  have "render_ptrs_loop (drawing_ptrs s) (println ?h (println [] s)) = Inr s'"
    by (simp add: render_ptrs_def Let_def)
  from render_ptrs_loop_slots [OF this] obtain ls
    where ls: "list_all2 (slot_output s) (drawing_ptrs s) ls"
    by auto
  let ?out = "[[], ?h] @ ls"
  from render_ptrs_lines [OF False ls] assms have s': "s' = s\<lparr>cout := cout s @ ?out\<rparr>"
    by simp
  have "drawing_ptrs s' \<noteq> []" "list_all2 (slot_output s') (drawing_ptrs s') ls"
    using False ls by (simp_all add: s')
  from render_ptrs_lines [OF this] have "render_ptrs s' = Inr (s'\<lparr>cout := cout s' @ ?out\<rparr>)"
    by (simp add: s')
  with s' show ?thesis by blast
qed

lemma render_u_ptrs_frame:
  assumes "render_u_ptrs s = Inr s'"
  shows "\<exists>out. s' = s\<lparr>cout := cout s @ out\<rparr>
           \<and> render_u_ptrs s' = Inr (s'\<lparr>cout := cout s' @ out\<rparr>)"
proof -
  let ?h = "''Rendering '' @ show_nat (length (drawing_u_ptrs s))
              @ '' elements from unique pointers''"
  from assms have "render_u_ptrs_loop (drawing_u_ptrs s) (println ?h (println [] s)) = Inr s'"
    by (simp add: render_u_ptrs_def Let_def)
  from render_u_ptrs_loop_elements [OF this] obtain es
    where es: "list_all2 (\<lambda>h e. deref h s = Inr e) (drawing_u_ptrs s) es"
    by auto
  let ?out = "[[], ?h] @ map render es"
  from render_u_ptrs_lines [OF es] assms have s': "s' = s\<lparr>cout := cout s @ ?out\<rparr>"
    by simp
  have "list_all2 (\<lambda>h e. deref h s' = Inr e) (drawing_u_ptrs s') es"
    using es by (simp add: s')
  from render_u_ptrs_lines [OF this]
  have "render_u_ptrs s' = Inr (s'\<lparr>cout := cout s' @ ?out\<rparr>)"
    by (simp add: s')
  with s' show ?thesis by blast
qed

subsection \<open>The loops that delete\<close>

lemma delete_loop_result:
  "delete_loop ps s = Inr s' \<Longrightarrow>
   s' = s\<lparr>heap := (\<lambda>a. if Some a \<in> set ps then None else heap s a)\<rparr>"
proof (induction ps arbitrary: s)
  case Nil
  then show ?case by simp
next
  case (Cons p ps)
  then obtain s1 where del: "op_delete p s = Inr s1" and rest: "delete_loop ps s1 = Inr s'"
    by (auto split: sum.splits)
  have s1: "s1 = s\<lparr>heap := (\<lambda>a. if Some a = p then None else heap s a)\<rparr>"
    using del by (auto simp: op_delete_def fun_eq_iff split: option.splits if_splits)
  show ?case
    unfolding Cons.IH [OF rest] s1 by (auto simp: fun_eq_iff)
qed

lemma delete_loop_succeeds:
  "distinct (owners ps) \<Longrightarrow> list_all (owns_dynamic s) (owners ps) \<Longrightarrow>
   \<exists>s'. delete_loop ps s = Inr s'"
proof (induction ps arbitrary: s rule: owners.induct)
  case 1
  then show ?case by simp
next
  case (2 ps)
  then show ?case by (simp add: op_delete_def)
next
  case (3 a ps)
  from "3.prems" obtain obj where obj: "heap s a = Some obj" "fst obj = Dynamic"
    by (auto simp: owns_dynamic_def split: option.splits)
  let ?s1 = "s\<lparr>heap := (heap s)(a := None)\<rparr>"
  have "list_all (owns_dynamic ?s1) (owners ps)"
    using "3.prems" by (auto simp: list_all_iff owns_dynamic_def)
  moreover have "distinct (owners ps)"
    using "3.prems" by simp
  ultimately obtain s' where "delete_loop ps ?s1 = Inr s'"
    using "3.IH" by blast
  then show ?case
    using obj by (simp add: op_delete_def)
qed

lemma delete_loop_deletable:
  assumes "deletable s ps"
  shows "delete_loop ps s = Inr (s\<lparr>heap := (\<lambda>a. if Some a \<in> set ps then None else heap s a)\<rparr>)"
proof -
  from assms obtain t where t: "delete_loop ps s = Inr t"
    using delete_loop_succeeds [of ps s] by (auto simp: deletable_def)
  from delete_loop_result [OF t] t show ?thesis
    by simp
qed

lemma deletable_println [simp]: "deletable (println l s) ps = deletable s ps"
  by (simp add: deletable_def owns_dynamic_def [abs_def])

lemma destroy_u_ptrs_eq: "destroy_u_ptrs ps s = delete_loop ps s"
  by (induction ps arbitrary: s) (simp_all add: unique_ptr_dtor_def split: sum.splits)

lemma clear_drawing_ptrs_empties:
  "clear_drawing_ptrs s = Inr s' \<Longrightarrow> drawing_ptrs s' = []"
  by (auto simp: clear_drawing_ptrs_def split: sum.splits)

lemma clear_drawing_ptrs_of_empty:
  "drawing_ptrs s = [] \<Longrightarrow>
   clear_drawing_ptrs s = Inr (s\<lparr>cout := cout s @ [[], ''* Deleting pointers'']\<rparr>)"
  by (simp add: clear_drawing_ptrs_def println_def)

lemma clear_u_ptrs_empties:
  "clear_u_ptrs s = Inr s' \<Longrightarrow> drawing_u_ptrs s' = []"
  by (auto simp: clear_u_ptrs_def split: sum.splits)

lemma clear_u_ptrs_of_empty:
  "drawing_u_ptrs s = [] \<Longrightarrow> clear_u_ptrs s = Inr s"
  by (simp add: clear_u_ptrs_def)

lemma clear_u_ptrs_result:
  assumes "owned_ok s"
  shows "clear_u_ptrs s =
           Inr (s\<lparr>drawing_u_ptrs := [],
                  heap := (\<lambda>a. if Some a \<in> set (drawing_u_ptrs s) then None else heap s a)\<rparr>)"
  using assms
  by (simp add: clear_u_ptrs_def destroy_u_ptrs_eq delete_loop_deletable owned_ok_def)

subsection \<open>Some lines of output\<close>

lemma show_nat_2: "show_nat (Suc (Suc 0)) = ''2''"
  by (simp add: show_nat_digit digit_def)

lemma show_nat_3: "show_nat (Suc (Suc (Suc 0))) = ''3''"
  by (simp add: show_nat_digit digit_def)

lemma render_point_10_15: "render (Point 10 15) = ''Rendering a point (10, 15)''"
  by code_simp

lemma render_line_25_25_50_100:
  "render (Line 25 25 50 100) = ''Rendering a line from (25, 25) to (50, 100)''"
  by code_simp

lemma render_rectangle_50_50_100_75:
  "render (Rectangle 50 50 100 75) =
     ''Rendering a rectangle of dimension 100x75, from (50, 50)''"
  by code_simp

section \<open>Properties of the program\<close>

text \<open>
  Claim C1. Start from any state whose vector \<^verbatim>\<open>_drawing_u_ptrs\<close> is empty and call
  \<^verbatim>\<open>add_element_u_ptr\<close> once for each handle of a list, every handle holding a live
  element. Then \<^verbatim>\<open>render_u_ptrs\<close> returns, and after the blank line and the count it has
  written exactly one line per handle, the line of the element that the handle holds,
  in the order of the calls; the vector holds the handles in that order and the number
  of element lines is the number of calls.
\<close>

theorem render_u_ptrs_insertion_order:
  assumes "drawing_u_ptrs s = []"
    and "list_all2 (\<lambda>h e. deref h s = Inr e) hs es"
  shows "render_u_ptrs (add_all_u_ptrs hs s) =
           Inr ((add_all_u_ptrs hs s)\<lparr>cout := cout s @
                  [[], ''Rendering '' @ show_nat (length hs) @ '' elements from unique pointers'']
                  @ map render es\<rparr>)
         \<and> drawing_u_ptrs (add_all_u_ptrs hs s) = hs
         \<and> length (map render es) = length hs"
proof -
  let ?t = "add_all_u_ptrs hs s"
  have t: "?t = s\<lparr>drawing_u_ptrs := hs\<rparr>"
    using assms(1) by (simp add: add_all_u_ptrs_eq)
  have "list_all2 (\<lambda>h e. deref h ?t = Inr e) (drawing_u_ptrs ?t) es"
    using assms(2) by (simp add: t)
  from render_u_ptrs_lines [OF this]
  have "render_u_ptrs ?t =
          Inr (?t\<lparr>cout := cout s @
                 [[], ''Rendering '' @ show_nat (length hs) @ '' elements from unique pointers'']
                 @ map render es\<rparr>)"
    by (simp add: t)
  moreover have "length (map render es) = length hs"
    using assms(2) by (simp add: list_all2_lengthD)
  moreover have "drawing_u_ptrs ?t = hs"
    by (simp add: t)
  ultimately show ?thesis by simp
qed

text \<open>Two elements from the factory methods, added in this order, at the start of
  the program.\<close>

theorem render_u_ptrs_insertion_order_witness:
  "drawing_u_ptrs (snd (getLinePtr 25 25 50 100 (snd (getPointPtr 10 15 Drawing_init)))) = []
   \<and> list_all2
        (\<lambda>h e. deref h (snd (getLinePtr 25 25 50 100 (snd (getPointPtr 10 15 Drawing_init)))) = Inr e)
        [Some 0, Some 1] [Point 10 15, Line 25 25 50 100]
   \<and> map_sum id cout
        (render_u_ptrs
           (add_all_u_ptrs [Some 0, Some 1]
              (snd (getLinePtr 25 25 50 100 (snd (getPointPtr 10 15 Drawing_init))))))
       = Inr [[], ''Rendering 2 elements from unique pointers'',
              ''Rendering a point (10, 15)'', ''Rendering a line from (25, 25) to (50, 100)'']"
proof -
  let ?s = "snd (getLinePtr 25 25 50 100 (snd (getPointPtr 10 15 Drawing_init)))"
  have h1: "drawing_u_ptrs ?s = []"
    by (simp add: getLinePtr_def getPointPtr_def op_new_def Drawing_init_def)
  have h2: "list_all2 (\<lambda>h e. deref h ?s = Inr e) [Some 0, Some 1] [Point 10 15, Line 25 25 50 100]"
    by (simp add: getLinePtr_def getPointPtr_def op_new_def Drawing_init_def deref_def)
  have c: "cout ?s = []"
    by (simp add: getLinePtr_def getPointPtr_def op_new_def Drawing_init_def)
  from render_u_ptrs_insertion_order [OF h1 h2]
  have "map_sum id cout (render_u_ptrs (add_all_u_ptrs [Some 0, Some 1] ?s))
          = Inr [[], ''Rendering '' @ show_nat (Suc (Suc 0)) @ '' elements from unique pointers'',
                 render (Point 10 15), render (Line 25 25 50 100)]"
    by (simp add: c)
  then have "map_sum id cout (render_u_ptrs (add_all_u_ptrs [Some 0, Some 1] ?s))
          = Inr [[], ''Rendering 2 elements from unique pointers'',
              ''Rendering a point (10, 15)'', ''Rendering a line from (25, 25) to (50, 100)'']"
    unfolding show_nat_2 render_point_10_15 render_line_25_25_50_100 by simp
  with h1 h2 show ?thesis by blast
qed

text \<open>
  Claim C2. On an empty \<^verbatim>\<open>_drawing_u_ptrs\<close>, whatever the rest of the state, and so on
  the freshly constructed \<^verbatim>\<open>Drawing\<close> and after the vector has been cleared,
  \<^verbatim>\<open>render_u_ptrs\<close> returns and writes the blank line and the one message
  \<^verbatim>\<open>Rendering 0 elements from unique pointers\<close>, and no line of any element. The
  message is the count that the method always writes: it has no branch of its own for
  the empty vector.
\<close>

theorem render_u_ptrs_empty_store:
  "render_u_ptrs (s\<lparr>drawing_u_ptrs := []\<rparr>) =
     Inr (s\<lparr>drawing_u_ptrs := [],
            cout := cout s @ [[], ''Rendering 0 elements from unique pointers'']\<rparr>)
   \<and> render_u_ptrs Drawing_init =
     Inr (Drawing_init\<lparr>cout := [[], ''Rendering 0 elements from unique pointers'']\<rparr>)"
  by (simp add: render_u_ptrs_def Let_def println_def show_nat_digit digit_def Drawing_init_def)

text \<open>
  Claim C3. Let \<^verbatim>\<open>_drawing_ptrs\<close> hold a null pointer at some position, and let every other
  slot have a line (it is null or points to a live object). Then \<^verbatim>\<open>render_ptrs\<close> returns,
  and after the blank line and the count it has written the lines of the slots before,
  then exactly one \<^verbatim>\<open>  ** Null pointer\<close> for that slot, then the lines of all the slots
  after it, in order.
\<close>

theorem render_ptrs_null_slot:
  assumes "drawing_ptrs s = before @ None # after"
    and "list_all2 (slot_output s) before ls1"
    and "list_all2 (slot_output s) after ls2"
  shows "render_ptrs s =
           Inr (s\<lparr>cout := cout s @
                  [[], ''Rendering '' @ show_nat (length (drawing_ptrs s)) @ '' elements from pointers'']
                  @ ls1 @ [''  ** Null pointer''] @ ls2\<rparr>)"
proof -
  have "list_all2 (slot_output s) (before @ None # after) (ls1 @ ''  ** Null pointer'' # ls2)"
    using assms(2,3) by (simp add: list_all2_appendI slot_output_def)
  then have "list_all2 (slot_output s) (drawing_ptrs s) (ls1 @ ''  ** Null pointer'' # ls2)"
    by (simp add: assms(1))
  moreover have "drawing_ptrs s \<noteq> []"
    by (simp add: assms(1))
  ultimately show ?thesis
    using render_ptrs_lines [of s "ls1 @ ''  ** Null pointer'' # ls2"] by simp
qed

text \<open>A point, a null pointer and a line, in this order.\<close>

theorem render_ptrs_null_slot_witness:
  "drawing_ptrs (add_element_ptr (Some (Suc 0)) (add_element_ptr None (add_element_ptr (Some 0)
      (snd (op_new (Line 25 25 50 100) (snd (op_new (Point 10 15) Drawing_init)))))))
     = [Some 0] @ None # [Some (Suc 0)]
   \<and> map_sum id cout (render_ptrs (add_element_ptr (Some (Suc 0)) (add_element_ptr None
        (add_element_ptr (Some 0)
           (snd (op_new (Line 25 25 50 100) (snd (op_new (Point 10 15) Drawing_init))))))))
     = Inr [[], ''Rendering 3 elements from pointers'', ''Rendering a point (10, 15)'',
            ''  ** Null pointer'', ''Rendering a line from (25, 25) to (50, 100)'']"
proof -
  let ?s = "add_element_ptr (Some (Suc 0)) (add_element_ptr None (add_element_ptr (Some 0)
      (snd (op_new (Line 25 25 50 100) (snd (op_new (Point 10 15) Drawing_init))))))"
  have h1: "drawing_ptrs ?s = [Some 0] @ None # [Some (Suc 0)]"
    by (simp add: add_element_ptr_def op_new_def Drawing_init_def)
  have h2: "list_all2 (slot_output ?s) [Some 0] [render (Point 10 15)]"
    by (simp add: add_element_ptr_def op_new_def Drawing_init_def slot_output_def)
  have h3: "list_all2 (slot_output ?s) [Some (Suc 0)] [render (Line 25 25 50 100)]"
    by (simp add: add_element_ptr_def op_new_def Drawing_init_def slot_output_def)
  have c: "cout ?s = []"
    by (simp add: add_element_ptr_def op_new_def Drawing_init_def)
  have len: "length (drawing_ptrs ?s) = Suc (Suc (Suc 0))"
    by (simp add: h1)
  from render_ptrs_null_slot [OF h1 h2 h3]
  have "map_sum id cout (render_ptrs ?s)
          = Inr [[], ''Rendering 3 elements from pointers'', ''Rendering a point (10, 15)'',
            ''  ** Null pointer'', ''Rendering a line from (25, 25) to (50, 100)'']"
    by (simp add: c len show_nat_3 render_point_10_15 render_line_25_25_50_100
        del: render.simps)
  with h1 show ?thesis by blast
qed

text \<open>
  Claim C4. \<^verbatim>\<open>add_element_u_ptr\<close> takes a null handle and stores it as a slot of the
  vector. \<^verbatim>\<open>render_u_ptrs\<close> then calls \<^verbatim>\<open>render()\<close> through that null handle: it neither
  skips the slot nor raises, which is what the claim asks for and what \<^verbatim>\<open>render_ptrs\<close>
  does for its own vector.
\<close>

theorem render_u_ptrs_null_handle_faults:
  "add_element_u_ptr None Drawing_init = (Drawing_init\<lparr>drawing_u_ptrs := [None]\<rparr>, None)
   \<and> render_u_ptrs (fst (add_element_u_ptr None Drawing_init)) = Inl NullDereference"
  by (simp add: add_element_u_ptr_def emplace_back_u_ptr_def unique_ptr_move_def
      render_u_ptrs_def Let_def Drawing_init_def call_render_def deref_def)

text \<open>
  Claim C5, as the code has it. \<^verbatim>\<open>clear_drawing_ptrs\<close> does not leave the referents alone:
  when the pointers of \<^verbatim>\<open>_drawing_ptrs\<close> can be deleted (no address twice, each one a live
  object made by \<^verbatim>\<open>new\<close>; null pointers are skipped), it returns with the vector empty
  and with every object that the vector referred to deleted. Only the objects that the
  vector did not refer to, and everything else but the two lines of output, stay as
  they were.
\<close>

theorem clear_drawing_ptrs_deletes_referents:
  assumes "deletable s (drawing_ptrs s)"
  shows "clear_drawing_ptrs s =
           Inr (s\<lparr>drawing_ptrs := [],
                  heap := (\<lambda>a. if Some a \<in> set (drawing_ptrs s) then None else heap s a),
                  cout := cout s @ [[], ''* Deleting pointers'']\<rparr>)"
proof -
  let ?s2 = "println ''* Deleting pointers'' (println [] s)"
  have "deletable ?s2 (drawing_ptrs s)"
    using assms by simp
  from delete_loop_deletable [OF this] show ?thesis
    by (simp add: clear_drawing_ptrs_def println_def cong del: if_weak_cong)
qed

text \<open>The three objects of \<^verbatim>\<open>draw_ptrs\<close> and a null pointer in the vector, and one more
  object that the vector does not refer to: only that one is left.\<close>

theorem clear_drawing_ptrs_deletes_referents_witness:
  "deletable (add_element_ptr None (draw_ptrs (snd (op_new (Point 10 15) Drawing_init))))
     (drawing_ptrs (add_element_ptr None (draw_ptrs (snd (op_new (Point 10 15) Drawing_init)))))
   \<and> clear_drawing_ptrs (add_element_ptr None (draw_ptrs (snd (op_new (Point 10 15) Drawing_init))))
     = Inr \<lparr>drawing_ptrs = [], drawing_u_ptrs = [],
            heap = (\<lambda>a. None)(0 \<mapsto> (Dynamic, Point 10 15)), next_addr = 4,
            cout = [[], ''* Deleting pointers'']\<rparr>"
proof -
  let ?s = "add_element_ptr None (draw_ptrs (snd (op_new (Point 10 15) Drawing_init)))"
  have s: "?s = \<lparr>drawing_ptrs = [Some (Suc 0), Some 2, Some 3, None], drawing_u_ptrs = [],
      heap = (\<lambda>a. None)(0 \<mapsto> (Dynamic, Point 10 15), Suc 0 \<mapsto> (Dynamic, Point 45 55),
               2 \<mapsto> (Dynamic, Line 88 98 456 987), 3 \<mapsto> (Dynamic, Rectangle 879 654 123 321)),
      next_addr = 4, cout = []\<rparr>"
    by (simp add: add_element_ptr_def draw_ptrs_def op_new_def Drawing_init_def eval_nat_numeral)
  have h: "deletable ?s (drawing_ptrs ?s)"
    unfolding s by (simp add: deletable_def owns_dynamic_def)
  from clear_drawing_ptrs_deletes_referents [OF h]
  have "clear_drawing_ptrs ?s
     = Inr \<lparr>drawing_ptrs = [], drawing_u_ptrs = [],
            heap = (\<lambda>a. None)(0 \<mapsto> (Dynamic, Point 10 15)), next_addr = 4,
            cout = [[], ''* Deleting pointers'']\<rparr>"
    unfolding s by (auto simp: fun_eq_iff)
  with h show ?thesis by blast
qed

text \<open>
  Claim C5 as stated, that clearing the vector of raw pointers never frees what it
  refers to, fails after \<^verbatim>\<open>draw_ptrs\<close>: the point made by \<^verbatim>\<open>new Point{45, 55}\<close> is alive
  before \<^verbatim>\<open>clear_drawing_ptrs\<close>, and no object is left after it.
\<close>

theorem clear_drawing_ptrs_frees_referents_counterexample:
  "heap (draw_ptrs Drawing_init) 0 = Some (Dynamic, Point 45 55)
   \<and> clear_drawing_ptrs (draw_ptrs Drawing_init) =
       Inr \<lparr>drawing_ptrs = [], drawing_u_ptrs = [], heap = (\<lambda>a. None), next_addr = 3,
            cout = [[], ''* Deleting pointers'']\<rparr>"
  by (simp add: draw_ptrs_def Drawing_init_def op_new_def clear_drawing_ptrs_def println_def
      op_delete_def fun_eq_iff)

text \<open>
  Claim C6. \<^verbatim>\<open>clear_drawing_ptrs\<close> on an empty \<^verbatim>\<open>_drawing_ptrs\<close> returns and changes nothing
  but the output, where it writes its two lines. Whenever it returns the vector is
  empty, so that a second call right after the first returns as well and leaves the
  vectors and the memory as the first call left them. The same holds for
  \<^verbatim>\<open>_drawing_u_ptrs.clear()\<close>, which writes nothing.
\<close>

theorem clear_idempotent:
  "(drawing_ptrs s = [] \<longrightarrow>
      clear_drawing_ptrs s = Inr (s\<lparr>cout := cout s @ [[], ''* Deleting pointers'']\<rparr>))
   \<and> (clear_drawing_ptrs s = Inr s1 \<longrightarrow>
      drawing_ptrs s1 = [] \<and>
      clear_drawing_ptrs s1 = Inr (s1\<lparr>cout := cout s1 @ [[], ''* Deleting pointers'']\<rparr>))
   \<and> (drawing_u_ptrs s = [] \<longrightarrow> clear_u_ptrs s = Inr s)
   \<and> (clear_u_ptrs s = Inr s2 \<longrightarrow> drawing_u_ptrs s2 = [] \<and> clear_u_ptrs s2 = Inr s2)"
  using clear_drawing_ptrs_of_empty clear_drawing_ptrs_empties clear_u_ptrs_of_empty
    clear_u_ptrs_empties
  by blast

text \<open>The start of the program for the empty vectors; for the calls in a row, the state
  after \<^verbatim>\<open>draw_ptrs\<close> and a state with one owned element.\<close>

theorem clear_idempotent_witness:
  "drawing_ptrs Drawing_init = [] \<and> drawing_u_ptrs Drawing_init = []
   \<and> clear_drawing_ptrs Drawing_init = Inr (Drawing_init\<lparr>cout := [[], ''* Deleting pointers'']\<rparr>)
   \<and> clear_u_ptrs Drawing_init = Inr Drawing_init
   \<and> clear_drawing_ptrs (draw_ptrs Drawing_init)
       = Inr \<lparr>drawing_ptrs = [], drawing_u_ptrs = [], heap = (\<lambda>a. None), next_addr = 3,
              cout = [[], ''* Deleting pointers'']\<rparr>
   \<and> clear_drawing_ptrs \<lparr>drawing_ptrs = [], drawing_u_ptrs = [], heap = (\<lambda>a. None),
         next_addr = 3, cout = [[], ''* Deleting pointers'']\<rparr>
       = Inr \<lparr>drawing_ptrs = [], drawing_u_ptrs = [], heap = (\<lambda>a. None), next_addr = 3,
              cout = [[], ''* Deleting pointers'', [], ''* Deleting pointers'']\<rparr>
   \<and> clear_u_ptrs (fst (add_element_u_ptr (Some 0) (snd (op_new (Point 10 15) Drawing_init))))
       = Inr \<lparr>drawing_ptrs = [], drawing_u_ptrs = [], heap = (\<lambda>a. None), next_addr = 1,
              cout = []\<rparr>
   \<and> clear_u_ptrs \<lparr>drawing_ptrs = [], drawing_u_ptrs = [], heap = (\<lambda>a. None), next_addr = 1,
         cout = []\<rparr>
       = Inr \<lparr>drawing_ptrs = [], drawing_u_ptrs = [], heap = (\<lambda>a. None), next_addr = 1,
              cout = []\<rparr>"
proof -
  let ?s1 = "\<lparr>drawing_ptrs = [], drawing_u_ptrs = [], heap = (\<lambda>a. None), next_addr = 3,
              cout = [[], ''* Deleting pointers'']\<rparr>"
  let ?u = "fst (add_element_u_ptr (Some 0) (snd (op_new (Point 10 15) Drawing_init)))"
  let ?s2 = "\<lparr>drawing_ptrs = [], drawing_u_ptrs = [], heap = (\<lambda>a. None), next_addr = 1,
              cout = []\<rparr>"
  have e1: "drawing_ptrs Drawing_init = []" and e2: "drawing_u_ptrs Drawing_init = []"
    by (simp_all add: Drawing_init_def)
  have c1: "clear_drawing_ptrs (draw_ptrs Drawing_init) = Inr ?s1"
    by (simp add: draw_ptrs_def Drawing_init_def op_new_def clear_drawing_ptrs_def println_def
        op_delete_def fun_eq_iff)
  have c2: "clear_u_ptrs ?u = Inr ?s2"
    by (simp add: add_element_u_ptr_def emplace_back_u_ptr_def unique_ptr_move_def op_new_def
        Drawing_init_def clear_u_ptrs_def unique_ptr_dtor_def op_delete_def fun_eq_iff)
  have a: "clear_drawing_ptrs Drawing_init = Inr (Drawing_init\<lparr>cout := [[], ''* Deleting pointers'']\<rparr>)"
    and b: "clear_u_ptrs Drawing_init = Inr Drawing_init"
    using clear_idempotent [of Drawing_init] e1 e2 by (simp_all add: Drawing_init_def)
  have c: "clear_drawing_ptrs ?s1 = Inr (?s1\<lparr>cout := cout ?s1 @ [[], ''* Deleting pointers'']\<rparr>)"
    using clear_idempotent [of "draw_ptrs Drawing_init" ?s1] c1 by blast
  have d: "clear_u_ptrs ?s2 = Inr ?s2"
    using clear_idempotent [of ?u _ ?s2] c2 by blast
  from c have c': "clear_drawing_ptrs ?s1 =
      Inr \<lparr>drawing_ptrs = [], drawing_u_ptrs = [], heap = (\<lambda>a. None), next_addr = 3,
              cout = [[], ''* Deleting pointers'', [], ''* Deleting pointers'']\<rparr>"
    by simp
  from e1 e2 a b c1 c' c2 d show ?thesis by blast
qed

text \<open>
  Claim C7. From any state with an empty \<^verbatim>\<open>_drawing_u_ptrs\<close>, make \<^verbatim>\<open>Point(10,15)\<close>,
  \<^verbatim>\<open>Line(25,25,50,100)\<close> and \<^verbatim>\<open>Rectangle(50,50,100,75)\<close> with the factory methods and add
  each with \<^verbatim>\<open>add_element_u_ptr\<close>, in this order. \<^verbatim>\<open>render_u_ptrs\<close> then returns, and
  after the blank line and the count 3 it has written exactly three lines, in this order,
  with these coordinates.
\<close>

theorem owned_scenario_output:
  assumes "drawing_u_ptrs s = []"
  shows "(let (p, s1) = getPointPtr 10 15 s;
              s2 = fst (add_element_u_ptr p s1);
              (l, s3) = getLinePtr 25 25 50 100 s2;
              s4 = fst (add_element_u_ptr l s3);
              (r, s5) = getRectanglePtr 50 50 100 75 s4;
              s6 = fst (add_element_u_ptr r s5)
          in map_sum id cout (render_u_ptrs s6)) =
         Inr (cout s @
              [[],
               ''Rendering 3 elements from unique pointers'',
               ''Rendering a point (10, 15)'',
               ''Rendering a line from (25, 25) to (50, 100)'',
               ''Rendering a rectangle of dimension 100x75, from (50, 50)''])"
proof -
  define n where "n = next_addr s"
  define s6 where "s6 = s\<lparr>
      heap := (heap s)(n \<mapsto> (Dynamic, Point 10 15), Suc n \<mapsto> (Dynamic, Line 25 25 50 100),
                Suc (Suc n) \<mapsto> (Dynamic, Rectangle 50 50 100 75)),
      next_addr := Suc (Suc (Suc n)),
      drawing_u_ptrs := [Some n, Some (Suc n), Some (Suc (Suc n))]\<rparr>"
  have run: "(let (p, s1) = getPointPtr 10 15 s;
              s2 = fst (add_element_u_ptr p s1);
              (l, s3) = getLinePtr 25 25 50 100 s2;
              s4 = fst (add_element_u_ptr l s3);
              (r, s5) = getRectanglePtr 50 50 100 75 s4;
              s6 = fst (add_element_u_ptr r s5)
          in map_sum id cout (render_u_ptrs s6)) = map_sum id cout (render_u_ptrs s6)"
    using assms
    by (simp add: getPointPtr_def getLinePtr_def getRectanglePtr_def op_new_def
        add_element_u_ptr_def emplace_back_u_ptr_def unique_ptr_move_def s6_def n_def)
  have "list_all2 (\<lambda>h e. deref h s6 = Inr e) (drawing_u_ptrs s6)
          [Point 10 15, Line 25 25 50 100, Rectangle 50 50 100 75]"
    by (simp add: s6_def deref_def)
  from render_u_ptrs_lines [OF this]
  have "map_sum id cout (render_u_ptrs s6) =
          Inr (cout s @
            [[], ''Rendering '' @ show_nat (Suc (Suc (Suc 0))) @ '' elements from unique pointers'',
             render (Point 10 15), render (Line 25 25 50 100), render (Rectangle 50 50 100 75)])"
    by (simp add: s6_def del: render.simps)
  then show ?thesis
    unfolding run show_nat_3 render_point_10_15 render_line_25_25_50_100
      render_rectangle_50_50_100_75
    by simp
qed

text \<open>The scenario at the start of the program.\<close>

theorem owned_scenario_output_witness:
  "drawing_u_ptrs Drawing_init = []
   \<and> (let (p, s1) = getPointPtr 10 15 Drawing_init;
              s2 = fst (add_element_u_ptr p s1);
              (l, s3) = getLinePtr 25 25 50 100 s2;
              s4 = fst (add_element_u_ptr l s3);
              (r, s5) = getRectanglePtr 50 50 100 75 s4;
              s6 = fst (add_element_u_ptr r s5)
          in map_sum id cout (render_u_ptrs s6)) =
         Inr [[],
               ''Rendering 3 elements from unique pointers'',
               ''Rendering a point (10, 15)'',
               ''Rendering a line from (25, 25) to (50, 100)'',
               ''Rendering a rectangle of dimension 100x75, from (50, 50)'']"
proof -
  have h: "drawing_u_ptrs Drawing_init = []"
    by (simp add: Drawing_init_def)
  have c: "cout Drawing_init = []"
    by (simp add: Drawing_init_def)
  from owned_scenario_output [OF h] h show ?thesis
    unfolding c by simp
qed

text \<open>
  Claim C8. After \<^verbatim>\<open>add_element_u_ptr(std::move(e))\<close> the caller's handle \<open>e\<close> is null, as
  is the parameter inside the function; the vector has one more slot, which holds what
  \<open>e\<close> held, and nothing else has changed. The addresses held by the caller's handle and
  the slots of the vector together are the same before and after, each as often as
  before, so that an element with one owner still has exactly one. A \<^verbatim>\<open>render()\<close>
  through the caller's handle after the call is a call through a null pointer.
\<close>

theorem add_element_u_ptr_moves_ownership:
  "snd (call_add_element_u_ptr e s) = None
   \<and> snd (add_element_u_ptr e s) = None
   \<and> fst (call_add_element_u_ptr e s) = s\<lparr>drawing_u_ptrs := drawing_u_ptrs s @ [e]\<rparr>
   \<and> mset (owners (snd (call_add_element_u_ptr e s)
                     # drawing_u_ptrs (fst (call_add_element_u_ptr e s))))
       = mset (owners (e # drawing_u_ptrs s))
   \<and> call_render (snd (call_add_element_u_ptr e s)) (fst (call_add_element_u_ptr e s))
       = Inl NullDereference"
  by (cases e)
     (simp_all add: call_add_element_u_ptr_def add_element_u_ptr_def emplace_back_u_ptr_def
        unique_ptr_move_def owners_append call_render_def deref_def)

text \<open>
  Claim C9. When \<^verbatim>\<open>render_ptrs\<close> or \<^verbatim>\<open>render_u_ptrs\<close> returns, the state differs from the
  one before only in the lines added to the output: both vectors and the memory are
  unchanged. A second call right after it returns as well and adds the same lines.
\<close>

theorem render_read_only:
  "(render_ptrs s = Inr s' \<longrightarrow>
      (\<exists>out. s' = s\<lparr>cout := cout s @ out\<rparr>
         \<and> render_ptrs s' = Inr (s'\<lparr>cout := cout s' @ out\<rparr>)))
   \<and> (render_u_ptrs s = Inr s'' \<longrightarrow>
      (\<exists>out. s'' = s\<lparr>cout := cout s @ out\<rparr>
         \<and> render_u_ptrs s'' = Inr (s''\<lparr>cout := cout s'' @ out\<rparr>)))"
  using render_ptrs_frame render_u_ptrs_frame by blast

text \<open>A state with three elements in \<^verbatim>\<open>_drawing_ptrs\<close> and one in \<^verbatim>\<open>_drawing_u_ptrs\<close>.\<close>

theorem render_read_only_witness:
  "render_ptrs (fst (add_element_u_ptr (Some 3) (snd (op_new (Point 10 15) (draw_ptrs Drawing_init)))))
     = Inr ((fst (add_element_u_ptr (Some 3) (snd (op_new (Point 10 15) (draw_ptrs Drawing_init)))))
              \<lparr>cout := [[], ''Rendering 3 elements from pointers'', render (Point 45 55),
                         render (Line 88 98 456 987), render (Rectangle 879 654 123 321)]\<rparr>)
   \<and> (\<exists>out.
        render_ptrs ((fst (add_element_u_ptr (Some 3) (snd (op_new (Point 10 15) (draw_ptrs Drawing_init)))))
              \<lparr>cout := [[], ''Rendering 3 elements from pointers'', render (Point 45 55),
                         render (Line 88 98 456 987), render (Rectangle 879 654 123 321)]\<rparr>)
        = Inr ((fst (add_element_u_ptr (Some 3) (snd (op_new (Point 10 15) (draw_ptrs Drawing_init)))))
              \<lparr>cout := [[], ''Rendering 3 elements from pointers'', render (Point 45 55),
                         render (Line 88 98 456 987), render (Rectangle 879 654 123 321)] @ out\<rparr>)
        \<and> out = [[], ''Rendering 3 elements from pointers'', render (Point 45 55),
                         render (Line 88 98 456 987), render (Rectangle 879 654 123 321)])
   \<and> render_u_ptrs (fst (add_element_u_ptr (Some 3) (snd (op_new (Point 10 15) (draw_ptrs Drawing_init)))))
     = Inr ((fst (add_element_u_ptr (Some 3) (snd (op_new (Point 10 15) (draw_ptrs Drawing_init)))))
              \<lparr>cout := [[], ''Rendering 1 elements from unique pointers'', render (Point 10 15)]\<rparr>)
   \<and> (\<exists>out.
        render_u_ptrs ((fst (add_element_u_ptr (Some 3) (snd (op_new (Point 10 15) (draw_ptrs Drawing_init)))))
              \<lparr>cout := [[], ''Rendering 1 elements from unique pointers'', render (Point 10 15)]\<rparr>)
        = Inr ((fst (add_element_u_ptr (Some 3) (snd (op_new (Point 10 15) (draw_ptrs Drawing_init)))))
              \<lparr>cout := [[], ''Rendering 1 elements from unique pointers'', render (Point 10 15)] @ out\<rparr>)
        \<and> out = [[], ''Rendering 1 elements from unique pointers'', render (Point 10 15)])"
proof -
  let ?P = "fst (add_element_u_ptr (Some 3) (snd (op_new (Point 10 15) (draw_ptrs Drawing_init))))"
  let ?o1 = "[[], ''Rendering 3 elements from pointers'', render (Point 45 55),
              render (Line 88 98 456 987), render (Rectangle 879 654 123 321)]"
  let ?o2 = "[[], ''Rendering 1 elements from unique pointers'', render (Point 10 15)]"
  have P: "?P = \<lparr>drawing_ptrs = [Some 0, Some (Suc 0), Some 2], drawing_u_ptrs = [Some 3],
      heap = (\<lambda>a. None)(0 \<mapsto> (Dynamic, Point 45 55), Suc 0 \<mapsto> (Dynamic, Line 88 98 456 987),
               2 \<mapsto> (Dynamic, Rectangle 879 654 123 321), 3 \<mapsto> (Dynamic, Point 10 15)),
      next_addr = 4, cout = []\<rparr>"
    by (simp add: add_element_u_ptr_def emplace_back_u_ptr_def unique_ptr_move_def
        draw_ptrs_def op_new_def Drawing_init_def eval_nat_numeral)
  have h1: "render_ptrs ?P = Inr (?P\<lparr>cout := ?o1\<rparr>)"
    unfolding P
    by (simp add: render_ptrs_def Let_def println_def call_render_def deref_def
        show_nat_digit digit_def del: render.simps)
  have h2: "render_u_ptrs ?P = Inr (?P\<lparr>cout := ?o2\<rparr>)"
    unfolding P
    by (simp add: render_u_ptrs_def Let_def println_def call_render_def deref_def
        show_nat_digit digit_def del: render.simps)
  have c: "cout ?P = []"
    unfolding P by simp
  from render_read_only [of ?P "?P\<lparr>cout := ?o1\<rparr>" "?P\<lparr>cout := ?o2\<rparr>"] h1 h2
  obtain out1 out2 where
    a: "?P\<lparr>cout := ?o1\<rparr> = ?P\<lparr>cout := cout ?P @ out1\<rparr>"
      "render_ptrs (?P\<lparr>cout := ?o1\<rparr>) = Inr (?P\<lparr>cout := ?o1\<rparr>\<lparr>cout := cout (?P\<lparr>cout := ?o1\<rparr>) @ out1\<rparr>)"
    and b: "?P\<lparr>cout := ?o2\<rparr> = ?P\<lparr>cout := cout ?P @ out2\<rparr>"
      "render_u_ptrs (?P\<lparr>cout := ?o2\<rparr>) = Inr (?P\<lparr>cout := ?o2\<rparr>\<lparr>cout := cout (?P\<lparr>cout := ?o2\<rparr>) @ out2\<rparr>)"
    by blast
  from a(1) have "cout (?P\<lparr>cout := ?o1\<rparr>) = cout (?P\<lparr>cout := cout ?P @ out1\<rparr>)"
    by (rule arg_cong)
  then have o1: "out1 = ?o1"
    by (simp add: c del: render.simps)
  from b(1) have "cout (?P\<lparr>cout := ?o2\<rparr>) = cout (?P\<lparr>cout := cout ?P @ out2\<rparr>)"
    by (rule arg_cong)
  then have o2: "out2 = ?o2"
    by (simp add: c del: render.simps)
  have r1: "render_ptrs (?P\<lparr>cout := ?o1\<rparr>) = Inr (?P\<lparr>cout := ?o1 @ ?o1\<rparr>)"
    using a(2) unfolding o1 by (simp del: render.simps)
  have r2: "render_u_ptrs (?P\<lparr>cout := ?o2\<rparr>) = Inr (?P\<lparr>cout := ?o2 @ ?o2\<rparr>)"
    using b(2) unfolding o2 by (simp del: render.simps)
  from h1 h2 r1 r2 show ?thesis
    by blast
qed

text \<open>
  Claim C10. Whatever \<^verbatim>\<open>_drawing_u_ptrs\<close> held before, each handle being null or the only
  owner of a live object made by \<^verbatim>\<open>new\<close>, \<^verbatim>\<open>draw_u_ptrs\<close> returns and the vector then holds
  exactly four handles, to four fresh objects: \<^verbatim>\<open>Point(10,15)\<close>, \<^verbatim>\<open>Point(35,22)\<close>,
  \<^verbatim>\<open>Line(55,122,234,556)\<close> and \<^verbatim>\<open>Rectangle(3,194,34,200)\<close>, in this order. The handles
  are again the only owners of live objects.
\<close>

theorem draw_u_ptrs_repopulates:
  assumes "owned_ok s"
  shows "\<exists>s'. draw_u_ptrs s = Inr s'
           \<and> drawing_u_ptrs s' =
               [Some (next_addr s), Some (next_addr s + 1), Some (next_addr s + 2),
                Some (next_addr s + 3)]
           \<and> map (\<lambda>p. deref p s') (drawing_u_ptrs s') =
               [Inr (Point 10 15), Inr (Point 35 22), Inr (Line 55 122 234 556),
                Inr (Rectangle 3 194 34 200)]
           \<and> owned_ok s'"
  unfolding draw_u_ptrs_def clear_u_ptrs_result [OF assms]
  by (simp add: op_new_def getPointPtr_def getLinePtr_def getRectanglePtr_def
      emplace_back_u_ptr_def unique_ptr_move_def deref_def owned_ok_def deletable_def
      owns_dynamic_def)

text \<open>A state whose \<^verbatim>\<open>_drawing_u_ptrs\<close> holds one element before the call.\<close>

theorem draw_u_ptrs_repopulates_witness:
  "owned_ok (fst (add_element_u_ptr (Some 3) (snd (op_new (Point 10 15) (draw_ptrs Drawing_init)))))
   \<and> (\<exists>s'. draw_u_ptrs (fst (add_element_u_ptr (Some 3)
                (snd (op_new (Point 10 15) (draw_ptrs Drawing_init))))) = Inr s'
           \<and> drawing_u_ptrs s' = [Some 4, Some 5, Some 6, Some 7]
           \<and> map (\<lambda>p. deref p s') (drawing_u_ptrs s') =
               [Inr (Point 10 15), Inr (Point 35 22), Inr (Line 55 122 234 556),
                Inr (Rectangle 3 194 34 200)]
           \<and> owned_ok s')"
proof -
  let ?P = "fst (add_element_u_ptr (Some 3) (snd (op_new (Point 10 15) (draw_ptrs Drawing_init))))"
  have h: "owned_ok ?P"
    by (simp add: add_element_u_ptr_def emplace_back_u_ptr_def unique_ptr_move_def
        draw_ptrs_def op_new_def Drawing_init_def owned_ok_def deletable_def owns_dynamic_def)
  have n: "next_addr ?P = 4"
    by (simp add: add_element_u_ptr_def emplace_back_u_ptr_def unique_ptr_move_def
        draw_ptrs_def op_new_def Drawing_init_def)
  from draw_u_ptrs_repopulates [OF h] h show ?thesis
    unfolding n by simp
qed

end
